theory Spec2Isabelle
  imports Main "HOL-Library.Word"
begin

section \<open>Test result sets of libsimdpp (test/utils/test_results_set.h)\<close>

text \<open>
  The header declares the element types of a vector, the record \<open>Result\<close> that holds one
  result vector as raw bytes, the class \<open>TestResultsSet\<close> that collects such records in
  sections, and the comparison function \<open>test_equal\<close>.

  The C++ type \<open>unsigned\<close> is a 32-bit word: \<open>+\<close> and \<open>*\<close> wrap around as they do in
  the code. \<open>std::uint8_t\<close> is an 8-bit word, \<open>const char*\<close> a string and
  \<open>std::size_t\<close> a natural number.

  Members whose C++ name ends in an underscore carry the suffix \<open>_m\<close> here
  (\<open>seq_\<close> is \<open>seq_m\<close>), and the fields \<open>file\<close> and \<open>length\<close> of \<open>Result\<close>
  are \<open>file_r\<close> and \<open>length_r\<close>.
\<close>

type_synonym unsigned = "32 word"
type_synonym uint8_t = "8 word"

subsection \<open>Types of vector elements\<close>

datatype VectorType =
    TYPE_INT8
  | TYPE_UINT8
  | TYPE_INT16
  | TYPE_UINT16
  | TYPE_UINT32
  | TYPE_INT32
  | TYPE_UINT64
  | TYPE_INT64
  | TYPE_FLOAT32
  | TYPE_FLOAT64

subsection \<open>One result vector\<close>

record Result =
  type :: VectorType
  line :: unsigned
  seq :: unsigned
  prec_ulp :: unsigned
  fp_zero_eq :: bool
  file_r :: string
  length_r :: unsigned
  el_size :: unsigned
  data :: "uint8_t list"

text \<open>
  The constructor stores its arguments and resizes the empty byte vector to
  \<open>el_size*length\<close> elements. The product is a product of two \<open>unsigned\<close> values;
  \<open>resize\<close> on an empty vector appends value-initialised, that is zero, bytes.
\<close>

definition Result_ctor ::
  "VectorType \<Rightarrow> unsigned \<Rightarrow> unsigned \<Rightarrow> string \<Rightarrow> unsigned \<Rightarrow> unsigned \<Rightarrow> unsigned \<Rightarrow> bool
     \<Rightarrow> Result" where
  "Result_ctor atype alength ael_size afile aline aseq aprec_ulp afp_zero_eq =
     \<lparr> type = atype, line = aline, seq = aseq, prec_ulp = aprec_ulp,
       fp_zero_eq = afp_zero_eq, file_r = afile, length_r = alength, el_size = ael_size,
       data = replicate (unat (ael_size * alength)) 0 \<rparr>"

text \<open>
  \<open>set\<close> is a single \<open>memcpy\<close> of \<open>el_size\<close> bytes from \<open>adata\<close> to the address
  \<open>data.data() + id*el_size\<close>; the offset \<open>id*el_size\<close> is an \<open>unsigned\<close> product.
  The code compares nothing with the length. When the \<open>el_size\<close> bytes at that offset
  lie inside the buffer, the call overwrites them and returns: the outcome is \<open>Stored\<close>
  with the new record. When they do not, or when fewer than \<open>el_size\<close> bytes can be
  read at \<open>adata\<close>, the copy leaves the buffer or the source, which C++ leaves undefined:
  the run may be killed or memory behind the buffer overwritten. The outcome is then
  \<open>Undefined\<close>; it carries the record as it was before the call, and the model says
  nothing about what such a call does. The source pointer is a list of the bytes found at
  \<open>adata\<close>.
\<close>

datatype set_outcome = Stored Result | Undefined Result

definition set_r :: "Result \<Rightarrow> unsigned \<Rightarrow> uint8_t list \<Rightarrow> set_outcome" where
  "set_r r id' adata =
     (let off = unat (id' * el_size r);
          n = unat (el_size r)
      in if off + n \<le> length (data r) \<and> n \<le> length adata
           then Stored (r\<lparr> data := take off (data r) @ take n adata @ drop (off + n) (data r) \<rparr>)
         else Undefined r)"

definition d :: "Result \<Rightarrow> uint8_t list" where
  "d r = data r"

subsection \<open>The results set\<close>

record TestResultsSet =
  name_m :: string
  seq_m :: unsigned
  curr_precision_ulp_m :: unsigned
  curr_fp_zero_equal_m :: unsigned
  curr_results_section_m :: unsigned
  results_m :: "Result list list"

definition set_precision :: "unsigned \<Rightarrow> TestResultsSet \<Rightarrow> TestResultsSet" where
  "set_precision num_ulp s = s\<lparr> curr_precision_ulp_m := num_ulp \<rparr>"

definition unset_precision :: "TestResultsSet \<Rightarrow> TestResultsSet" where
  "unset_precision s = s\<lparr> curr_precision_ulp_m := 0 \<rparr>"

definition set_fp_zero_equal :: "TestResultsSet \<Rightarrow> TestResultsSet" where
  "set_fp_zero_equal s = s\<lparr> curr_fp_zero_equal_m := 1 \<rparr>"

definition unset_fp_zero_equal :: "TestResultsSet \<Rightarrow> TestResultsSet" where
  "unset_fp_zero_equal s = s\<lparr> curr_fp_zero_equal_m := 0 \<rparr>"

definition name :: "TestResultsSet \<Rightarrow> string" where
  "name s = name_m s"

definition reset_seq :: "TestResultsSet \<Rightarrow> TestResultsSet" where
  "reset_seq s = s\<lparr> seq_m := 1 \<rparr>"

definition sync_archs :: "TestResultsSet \<Rightarrow> TestResultsSet" where
  "sync_archs s = reset_seq (s\<lparr> curr_results_section_m := curr_results_section_m s + 1 \<rparr>)"

definition get_results :: "TestResultsSet \<Rightarrow> Result list list" where
  "get_results s = results_m s"

subsection \<open>Members that the header only declares\<close>

text \<open>
  Modelled from the spec: \<open>TestResultsSet::size_for_type\<close>, declared in the header and
  defined elsewhere. The spec gives every element type a fixed byte size: integers of
  8, 16, 32 and 64 bits, IEEE-754 single and double precision.
\<close>

fun size_for_type :: "VectorType \<Rightarrow> nat" where
  "size_for_type TYPE_INT8 = 1"
| "size_for_type TYPE_UINT8 = 1"
| "size_for_type TYPE_INT16 = 2"
| "size_for_type TYPE_UINT16 = 2"
| "size_for_type TYPE_UINT32 = 4"
| "size_for_type TYPE_INT32 = 4"
| "size_for_type TYPE_UINT64 = 8"
| "size_for_type TYPE_INT64 = 8"
| "size_for_type TYPE_FLOAT32 = 4"
| "size_for_type TYPE_FLOAT64 = 8"

text \<open>
  Modelled from the spec: the constructor \<open>TestResultsSet(const char* name)\<close>, declared
  in the header and defined elsewhere. The spec has the sequence cursor at 1 at creation
  and one initial section; the two policy cursors start at the values that
  \<open>unset_precision\<close> and \<open>unset_fp_zero_equal\<close> give them.
\<close>

definition TestResultsSet_ctor :: "string \<Rightarrow> TestResultsSet" where
  "TestResultsSet_ctor aname =
     \<lparr> name_m = aname, seq_m = 1, curr_precision_ulp_m = 0, curr_fp_zero_equal_m = 0,
       curr_results_section_m = 0, results_m = [[]] \<rparr>"

text \<open>
  Modelled from the spec: \<open>TestResultsSet::push\<close>, declared in the header and defined
  elsewhere. The spec: it allocates a new record with the current policy snapshot and the
  next sequence number, appends it to the current (last) section, and increments the
  sequence counter. The header keeps the current section as the index
  \<open>curr_results_section_\<close>, which \<open>sync_archs\<close> increments without touching
  \<open>results_\<close>; so the model first opens empty sections until that index exists, which
  makes the current section the last one, and appends there. The element size handed to
  the constructor is \<open>size_for_type(type)\<close>. The result is the new record (the C++
  function returns a reference to it) and the new state.
\<close>

definition open_sections :: "nat \<Rightarrow> Result list list \<Rightarrow> Result list list" where
  "open_sections n rs = rs @ replicate (Suc n - length rs) []"

definition push ::
  "TestResultsSet \<Rightarrow> VectorType \<Rightarrow> unsigned \<Rightarrow> string \<Rightarrow> unsigned \<Rightarrow> Result \<times> TestResultsSet" where
  "push s atype alength afile aline =
     (let cur = unat (curr_results_section_m s);
          rs = open_sections cur (results_m s);
          r = Result_ctor atype alength (of_nat (size_for_type atype)) afile aline (seq_m s)
                (curr_precision_ulp_m s) (curr_fp_zero_equal_m s \<noteq> 0)
      in (r, s\<lparr> seq_m := seq_m s + 1, results_m := rs[cur := rs ! cur @ [r]] \<rparr>))"

text \<open>
  Modelled from the spec: \<open>TestResultsSet::num_results\<close>, declared in the header and
  defined elsewhere. The spec: the total count of records across all sections.
\<close>

definition num_results :: "TestResultsSet \<Rightarrow> nat" where
  "num_results s = sum_list (map length (results_m s))"

text \<open>
  Modelled from the spec: \<open>TestResultsSet::precision_for_result\<close>, declared in the
  header and defined elsewhere. The spec reads the tolerance of a record from its
  \<open>precision_ulp\<close> field.
\<close>

definition precision_for_result :: "Result \<Rightarrow> unsigned" where
  "precision_for_result res = prec_ulp res"

subsection \<open>The comparison of two results sets\<close>

text \<open>
  Modelled from the spec: the header declares \<open>test_equal\<close> and defines it elsewhere, so
  the comparison and all of its parts below follow section 4.3 and section 6 of the spec.
  Element \<open>i\<close> of a record is the \<open>el_size\<close> bytes at offset \<open>i*el_size\<close> of its
  buffer, the slot that \<open>set\<close> writes. The floating-point element types are the two
  IEEE-754 ones.
\<close>

definition element :: "Result \<Rightarrow> nat \<Rightarrow> uint8_t list" where
  "element r i = take (unat (el_size r)) (drop (i * unat (el_size r)) (data r))"

fun is_fp :: "VectorType \<Rightarrow> bool" where
  "is_fp TYPE_FLOAT32 = True"
| "is_fp TYPE_FLOAT64 = True"
| "is_fp t = False"

text \<open>
  Modelled from the spec: the element types \<open>TYPE_FLOAT32\<close> and \<open>TYPE_FLOAT64\<close> are
  IEEE-754 single and double precision. The bytes of an element are read as a bit pattern,
  least significant byte first. A pattern has one sign bit, then \<open>fp_exp_bits\<close> exponent
  bits, then \<open>fp_frac_bits\<close> fraction bits. It is a NaN when all exponent bits are set
  and the fraction is not zero, and it is a zero (+0.0 or -0.0) when all bits but the sign
  are clear.
\<close>

fun le_value :: "uint8_t list \<Rightarrow> nat" where
  "le_value [] = 0"
| "le_value (b # bs) = unat b + 256 * le_value bs"

fun fp_frac_bits :: "VectorType \<Rightarrow> nat" where
  "fp_frac_bits TYPE_FLOAT32 = 23"
| "fp_frac_bits TYPE_FLOAT64 = 52"
| "fp_frac_bits t = 0"

fun fp_exp_bits :: "VectorType \<Rightarrow> nat" where
  "fp_exp_bits TYPE_FLOAT32 = 8"
| "fp_exp_bits TYPE_FLOAT64 = 11"
| "fp_exp_bits t = 0"

definition fp_is_nan :: "VectorType \<Rightarrow> nat \<Rightarrow> bool" where
  "fp_is_nan t v =
     ((v div 2 ^ fp_frac_bits t) mod 2 ^ fp_exp_bits t = 2 ^ fp_exp_bits t - 1
      \<and> v mod 2 ^ fp_frac_bits t \<noteq> 0)"

definition fp_is_zero :: "VectorType \<Rightarrow> nat \<Rightarrow> bool" where
  "fp_is_zero t v = (v mod 2 ^ (fp_frac_bits t + fp_exp_bits t) = 0)"

text \<open>
  Modelled from the spec: the rule for one pair of elements (section 4.3, and the first
  three properties of section 8). Elements with the same bytes are equal: for the integer
  types that is the whole rule, and a set compared with an identical copy always succeeds.
  Floating-point elements are equal as well when both are free of NaN and their distance in
  ULPs is at most the larger of the two declared tolerances, and when either record has
  \<open>fp_zero_equal\<close> set and both are zeros. Every other pair is a mismatch. Neither the
  spec nor the header says how the distance in ULPs of two floats is measured, so it is a
  parameter: \<open>ulps t x y\<close> is the distance of the floats of type \<open>t\<close> with the bit
  patterns \<open>x\<close> and \<open>y\<close>. The parts of the rule have names: \<open>fp_bits\<close> is the bit
  pattern of an element, \<open>tolerance\<close> the larger of the two declared tolerances,
  \<open>nan_free_pair\<close> says that neither element is a NaN, \<open>ulp_apart\<close> is the distance of
  the two elements, and \<open>zeros_equal\<close> is the rule for +0.0 and -0.0.
\<close>

type_synonym ulp_distance = "VectorType \<Rightarrow> nat \<Rightarrow> nat \<Rightarrow> nat"

definition fp_bits :: "Result \<Rightarrow> nat \<Rightarrow> nat" where
  "fp_bits r i = le_value (element r i)"

definition tolerance :: "Result \<Rightarrow> Result \<Rightarrow> nat" where
  "tolerance a b = unat (max (precision_for_result a) (precision_for_result b))"

definition nan_free_pair :: "Result \<Rightarrow> Result \<Rightarrow> nat \<Rightarrow> bool" where
  "nan_free_pair a b i =
     (\<not> fp_is_nan (type a) (fp_bits a i) \<and> \<not> fp_is_nan (type a) (fp_bits b i))"

definition ulp_apart :: "ulp_distance \<Rightarrow> Result \<Rightarrow> Result \<Rightarrow> nat \<Rightarrow> nat" where
  "ulp_apart ulps a b i = ulps (type a) (fp_bits a i) (fp_bits b i)"

definition zeros_equal :: "Result \<Rightarrow> Result \<Rightarrow> nat \<Rightarrow> bool" where
  "zeros_equal a b i =
     ((fp_zero_eq a \<or> fp_zero_eq b)
      \<and> fp_is_zero (type a) (fp_bits a i) \<and> fp_is_zero (type a) (fp_bits b i))"

definition elements_equal :: "ulp_distance \<Rightarrow> Result \<Rightarrow> Result \<Rightarrow> nat \<Rightarrow> bool" where
  "elements_equal ulps a b i =
     (element a i = element b i
      \<or> (is_fp (type a)
          \<and> ((nan_free_pair a b i \<and> ulp_apart ulps a b i \<le> tolerance a b)
              \<or> zeros_equal a b i)))"

text \<open>
  Modelled from the spec: the diagnostic sink is an append-only sequence of lines. A line
  names both back-end labels and, below the level of the whole set, the section index;
  a line about a record adds the source file and line and the sequence number of the
  record; a line about an element adds the element index and both values.
\<close>

datatype diagnostic =
    SectionCountMismatch string string nat nat
  | RecordCountMismatch string string nat nat nat
  | TypeMismatch string string nat string unsigned unsigned
  | LengthMismatch string string nat string unsigned unsigned
  | ElementMismatch string string nat string unsigned unsigned nat "uint8_t list" "uint8_t list"

definition compare_elements ::
  "ulp_distance \<Rightarrow> string \<Rightarrow> string \<Rightarrow> nat \<Rightarrow> Result \<Rightarrow> Result \<Rightarrow> diagnostic list" where
  "compare_elements ulps a_arch b_arch sect a b =
     map (\<lambda>i. ElementMismatch a_arch b_arch sect (file_r a) (line a) (seq a) i
                 (element a i) (element b i))
       (filter (\<lambda>i. \<not> elements_equal ulps a b i) [0..<unat (length_r a)])"

definition compare_records ::
  "ulp_distance \<Rightarrow> string \<Rightarrow> string \<Rightarrow> nat \<Rightarrow> Result \<Rightarrow> Result \<Rightarrow> diagnostic list" where
  "compare_records ulps a_arch b_arch sect a b =
     (if type a \<noteq> type b then [TypeMismatch a_arch b_arch sect (file_r a) (line a) (seq a)]
      else if length_r a \<noteq> length_r b
        then [LengthMismatch a_arch b_arch sect (file_r a) (line a) (seq a)]
      else compare_elements ulps a_arch b_arch sect a b)"

definition compare_section ::
  "ulp_distance \<Rightarrow> string \<Rightarrow> string \<Rightarrow> nat \<Rightarrow> Result list \<Rightarrow> Result list \<Rightarrow> diagnostic list" where
  "compare_section ulps a_arch b_arch sect sa sb =
     (if length sa \<noteq> length sb
        then [RecordCountMismatch a_arch b_arch sect (length sa) (length sb)]
      else concat (map (\<lambda>(a, b). compare_records ulps a_arch b_arch sect a b) (zip sa sb)))"

text \<open>
  Modelled from the spec: \<open>test_equal\<close>. Step 1: the two sets must have the same number
  of sections; if not, one structural diagnostic is emitted and the result is failure.
  Step 2: section by section, the record counts must agree; if not, the section is
  reported and skipped. Step 3: the aligned records are compared. Step 4: the result is
  success when nothing was reported. The function returns the verdict and the sink with
  the new lines appended.
\<close>

definition test_equal ::
  "ulp_distance \<Rightarrow> TestResultsSet \<Rightarrow> string \<Rightarrow> TestResultsSet \<Rightarrow> string \<Rightarrow> diagnostic list
     \<Rightarrow> bool \<times> diagnostic list" where
  "test_equal ulps a a_arch b b_arch err =
     (let ra = results_m a; rb = results_m b in
      if length ra \<noteq> length rb
        then (False, err @ [SectionCountMismatch a_arch b_arch (length ra) (length rb)])
      else
        (let ds = concat (map (\<lambda>(sect, sa, sb). compare_section ulps a_arch b_arch sect sa sb)
                            (zip [0..<length ra] (zip ra rb)))
         in (ds = [], err @ ds)))"

subsection \<open>Auxiliary notions for the statements\<close>

text \<open>
  The record that a call of \<open>set\<close> leaves behind; for an undefined call, the record as
  it was before the call.
\<close>

fun outcome_result :: "set_outcome \<Rightarrow> Result" where
  "outcome_result (Stored r) = r"
| "outcome_result (Undefined r) = r"

text \<open>
  The size invariant as the C++ expression \<open>data.size() == el_size*length\<close> evaluates
  it, with the product of two \<open>unsigned\<close> values.
\<close>

definition size_inv :: "Result \<Rightarrow> bool" where
  "size_inv r = (length (data r) = unat (el_size r * length_r r))"

text \<open>
  A record whose buffer holds \<open>length\<close> elements of \<open>el_size\<close> bytes each, the product
  taken without wrap-around.
\<close>

definition fits :: "Result \<Rightarrow> bool" where
  "fits r = (unat (length_r r) * unat (el_size r) < 2 ^ 32
             \<and> length (data r) = unat (length_r r) * unat (el_size r))"

subsection \<open>Inputs for the examples\<close>

text \<open>
  The comparison takes the measure of the distance in ULPs as an argument. The examples
  pass this one: a bit pattern has a position in the order of the floats, its magnitude
  bits counted upwards from zero for a clear sign bit and downwards for a set one, and the
  distance of two patterns is the distance of their positions.
\<close>

definition fp_position :: "VectorType \<Rightarrow> nat \<Rightarrow> int" where
  "fp_position t v =
     (let k = fp_frac_bits t + fp_exp_bits t
      in if (v div 2 ^ k) mod 2 = 1 then - int (v mod 2 ^ k) else int (v mod 2 ^ k))"

definition ulps_by_position :: ulp_distance where
  "ulps_by_position t x y = nat \<bar>fp_position t x - fp_position t y\<bar>"

text \<open>
  A \<open>TYPE_FLOAT32\<close> record of length 1 whose four bytes are all \<open>0xFF\<close>, the bit
  pattern \<open>0xFFFFFFFF\<close>, which is a NaN in either byte order; and a results set with one
  section that holds this record.
\<close>

definition nan_f32 :: Result where
  "nan_f32 = (Result_ctor TYPE_FLOAT32 1 4 ''f'' 1 1 0 False)\<lparr> data := [255, 255, 255, 255] \<rparr>"

definition nan_example :: TestResultsSet where
  "nan_example =
     \<lparr> name_m = ''t'', seq_m = 2, curr_precision_ulp_m = 0, curr_fp_zero_equal_m = 0,
       curr_results_section_m = 0, results_m = [[nan_f32]] \<rparr>"




section \<open>The record: constructor and set\<close>

lemma set_r_fields:
  "type (outcome_result (set_r r i a)) = type r"
  "line (outcome_result (set_r r i a)) = line r"
  "seq (outcome_result (set_r r i a)) = seq r"
  "prec_ulp (outcome_result (set_r r i a)) = prec_ulp r"
  "fp_zero_eq (outcome_result (set_r r i a)) = fp_zero_eq r"
  "file_r (outcome_result (set_r r i a)) = file_r r"
  "length_r (outcome_result (set_r r i a)) = length_r r"
  "el_size (outcome_result (set_r r i a)) = el_size r"
  by (simp_all add: set_r_def Let_def)

lemma set_r_data_length:
  "length (data (outcome_result (set_r r i a))) = length (data r)"
proof (cases "unat (i * el_size r) + unat (el_size r) \<le> length (data r)
              \<and> unat (el_size r) \<le> length a")
  case True
  then show ?thesis by (simp add: set_r_def Let_def)
next
  case False
  then show ?thesis by (auto simp: set_r_def Let_def)
qed

lemma push_record:
  "fst (push s t n f l) =
     Result_ctor t n (of_nat (size_for_type t)) f l (seq_m s) (curr_precision_ulp_m s)
       (curr_fp_zero_equal_m s \<noteq> 0)"
  by (simp add: push_def Let_def)

lemma unat_size_for_type: "unat (of_nat (size_for_type t) :: unsigned) = size_for_type t"
  by (cases t) simp_all

text \<open>
  C10. The constructor of \<open>Result\<close> has no failing branch. Called with length 0 it gives,
  for every element type and every element size, a record whose fields are the arguments
  and whose byte buffer is empty.
\<close>

theorem Result_ctor_length_zero:
  "Result_ctor t 0 els f l sq p z =
     \<lparr> type = t, line = l, seq = sq, prec_ulp = p, fp_zero_eq = z, file_r = f,
       length_r = 0, el_size = els, data = [] \<rparr>"
  by (simp add: Result_ctor_def)

text \<open>
  C5, as the code has it. After construction \<open>data.size() == el_size*length\<close> holds, the
  product being the \<open>unsigned\<close> product of the code, and every call of \<open>set\<close> keeps it,
  together with the type, the length and the element size. The element size of a record
  is the constructor argument \<open>ael_size\<close>: the constructor does not derive it from the
  type. A record made by \<open>push\<close> has the element size \<open>size_for_type(type)\<close>.
\<close>

theorem size_invariant:
  "size_inv (Result_ctor t n els f l sq p z)
   \<and> el_size (Result_ctor t n els f l sq p z) = els
   \<and> (size_inv r \<longrightarrow> size_inv (outcome_result (set_r r i a)))
   \<and> type (outcome_result (set_r r i a)) = type r
   \<and> length_r (outcome_result (set_r r i a)) = length_r r
   \<and> el_size (outcome_result (set_r r i a)) = el_size r
   \<and> size_inv (fst (push s t n f l))
   \<and> unat (el_size (fst (push s t n f l))) = size_for_type (type (fst (push s t n f l)))"
proof -
  have c: "size_inv (Result_ctor t n els f l sq p z)"
    by (simp add: size_inv_def Result_ctor_def)
  have e: "el_size (Result_ctor t n els f l sq p z) = els"
    by (simp add: Result_ctor_def)
  have k: "size_inv r \<longrightarrow> size_inv (outcome_result (set_r r i a))"
    by (simp add: size_inv_def set_r_fields set_r_data_length)
  have p1: "size_inv (fst (push s t n f l))"
    by (simp add: push_record size_inv_def Result_ctor_def)
  have p2: "unat (el_size (fst (push s t n f l))) = size_for_type (type (fst (push s t n f l)))"
    using unat_size_for_type [of t] by (simp add: push_record Result_ctor_def)
  show ?thesis using c e k p1 p2 by (simp add: set_r_fields)
qed

text \<open>
  The invariant at work: a record of two 16-bit elements, and the same record after
  \<open>set(1, ...)\<close>.
\<close>

theorem size_invariant_witness:
  "size_inv (Result_ctor TYPE_UINT16 2 2 ''f'' 1 1 0 False)
   \<and> size_inv (outcome_result (set_r (Result_ctor TYPE_UINT16 2 2 ''f'' 1 1 0 False) 1 [7, 9]))
   \<and> data (outcome_result (set_r (Result_ctor TYPE_UINT16 2 2 ''f'' 1 1 0 False) 1 [7, 9]))
       = [0, 0, 7, 9]"
proof -
  have "data (outcome_result (set_r (Result_ctor TYPE_UINT16 2 2 ''f'' 1 1 0 False) 1 [7, 9]))
          = [0, 0, 7, 9]"
    by code_simp
  then show ?thesis
    using size_invariant [of TYPE_UINT16 2 2 "''f''" 1 1 0 False
        "Result_ctor TYPE_UINT16 2 2 ''f'' 1 1 0 False" 1 "[7, 9]"]
    by simp
qed

text \<open>
  C5 as stated fails: the constructor accepts an element size that is not the size of the
  element type. Here a record of type \<open>TYPE_INT8\<close> (one byte per element) is constructed
  with element size 8.
\<close>

theorem el_size_from_type_counterexample:
  "unat (el_size (Result_ctor TYPE_INT8 1 8 ''f'' 1 1 0 False))
     \<noteq> size_for_type (type (Result_ctor TYPE_INT8 1 8 ''f'' 1 1 0 False))"
  by (simp add: Result_ctor_def)

lemma offset_in_range:
  fixes i n len :: unsigned
  assumes "i < len" and "unat len * unat n < 2 ^ 32"
  shows "unat (i * n) = unat i * unat n" and "unat i * unat n + unat n \<le> unat len * unat n"
proof -
  from assms(1) have lt: "unat i < unat len" by (simp add: word_less_nat_alt)
  then have "Suc (unat i) \<le> unat len" by simp
  then have "Suc (unat i) * unat n \<le> unat len * unat n" by (rule mult_le_mono1)
  then show le: "unat i * unat n + unat n \<le> unat len * unat n" by simp
  then have "unat i * unat n < 2 ^ 32" using assms(2) by linarith
  then show "unat (i * n) = unat i * unat n"
    using unat_mult_lem [of i n] by simp
qed

lemma set_r_in_buffer:
  assumes "unat (i * el_size r) + unat (el_size r) \<le> length (data r)"
    and "unat (el_size r) \<le> length a"
  shows "set_r r i a =
           Stored (r\<lparr> data := take (unat (i * el_size r)) (data r) @ take (unat (el_size r)) a
                             @ drop (unat (i * el_size r) + unat (el_size r)) (data r) \<rparr>)"
  using assms by (simp add: set_r_def Let_def)

lemma set_r_outside_buffer:
  assumes "length (data r) < unat (i * el_size r) + unat (el_size r)"
  shows "set_r r i a = Undefined r"
  using assms by (simp add: set_r_def Let_def)

lemma set_r_in_range:
  assumes "fits r" and "i < length_r r" and "unat (el_size r) \<le> length a"
  shows "set_r r i a =
           Stored (r\<lparr> data := take (unat i * unat (el_size r)) (data r) @ take (unat (el_size r)) a
                             @ drop (unat i * unat (el_size r) + unat (el_size r)) (data r) \<rparr>)"
proof -
  from assms(1) have ov: "unat (length_r r) * unat (el_size r) < 2 ^ 32"
    and sz: "length (data r) = unat (length_r r) * unat (el_size r)" by (simp_all add: fits_def)
  have off: "unat (i * el_size r) = unat i * unat (el_size r)"
    and le: "unat i * unat (el_size r) + unat (el_size r) \<le> length (data r)"
    using offset_in_range [OF assms(2) ov] sz by simp_all
  from le have "unat (i * el_size r) + unat (el_size r) \<le> length (data r)"
    by (simp add: off)
  from set_r_in_buffer [OF this assms(3)] show ?thesis by (simp add: off)
qed

text \<open>
  C4, as the code has it. When at least \<open>el_size\<close> bytes can be read at \<open>raw\<close>:
  on a record whose buffer holds \<open>length\<close> elements of \<open>el_size\<close> bytes,
  \<open>set(index, raw)\<close> with \<open>index < length\<close> overwrites exactly the \<open>el_size\<close> bytes
  at offset \<open>index*el_size\<close> with the first \<open>el_size\<close> bytes of \<open>raw\<close> and changes
  nothing else. The code has no range check. For every index, whether below the length
  or not, the target is the offset \<open>index*el_size\<close> as an \<open>unsigned\<close> product: when the
  \<open>el_size\<close> bytes at that offset lie inside the buffer they are overwritten and the
  call returns, and when they do not the call is undefined.
\<close>

theorem set_r_copies_slot:
  assumes "unat (el_size r) \<le> length a"
  shows "(fits r \<and> i < length_r r \<longrightarrow>
            set_r r i a =
              Stored (r\<lparr> data := take (unat i * unat (el_size r)) (data r)
                                  @ take (unat (el_size r)) a
                                  @ drop (unat i * unat (el_size r) + unat (el_size r)) (data r) \<rparr>))
       \<and> (unat (i * el_size r) + unat (el_size r) \<le> length (data r) \<longrightarrow>
            set_r r i a =
              Stored (r\<lparr> data := take (unat (i * el_size r)) (data r)
                                  @ take (unat (el_size r)) a
                                  @ drop (unat (i * el_size r) + unat (el_size r)) (data r) \<rparr>))
       \<and> (length (data r) < unat (i * el_size r) + unat (el_size r) \<longrightarrow>
            set_r r i a = Undefined r)"
  using set_r_in_range [OF _ _ assms] set_r_in_buffer [OF _ assms] set_r_outside_buffer
  by blast

text \<open>
  All three parts on a record of two 16-bit elements: index 1 is the last slot; index
  \<open>2^31\<close> is far beyond the length, its offset wraps around to 0 and slot 0 is
  overwritten; index 2 has its offset at the end of the buffer.
\<close>

theorem set_r_copies_slot_witness:
  "unat (el_size (Result_ctor TYPE_UINT16 2 2 ''f'' 1 1 0 False)) \<le> length [7, 9 :: uint8_t]
   \<and> fits (Result_ctor TYPE_UINT16 2 2 ''f'' 1 1 0 False)
   \<and> 1 < length_r (Result_ctor TYPE_UINT16 2 2 ''f'' 1 1 0 False)
   \<and> set_r (Result_ctor TYPE_UINT16 2 2 ''f'' 1 1 0 False) 1 [7, 9]
       = Stored ((Result_ctor TYPE_UINT16 2 2 ''f'' 1 1 0 False)\<lparr> data := [0, 0, 7, 9] \<rparr>)
   \<and> set_r (Result_ctor TYPE_UINT16 2 2 ''f'' 1 1 0 False) 2147483648 [7, 9]
       = Stored ((Result_ctor TYPE_UINT16 2 2 ''f'' 1 1 0 False)\<lparr> data := [7, 9, 0, 0] \<rparr>)
   \<and> set_r (Result_ctor TYPE_UINT16 2 2 ''f'' 1 1 0 False) 2 [7, 9]
       = Undefined (Result_ctor TYPE_UINT16 2 2 ''f'' 1 1 0 False)"
proof -
  let ?r = "Result_ctor TYPE_UINT16 2 2 ''f'' 1 1 0 False"
  have d0: "data ?r = [0, 0, 0, 0]" by code_simp
  have d: "data ?r = [0, 0, 0, 0]" "el_size ?r = 2" "length_r ?r = 2"
    by (simp_all add: d0) (simp_all add: Result_ctor_def)
  have f: "fits ?r" by (simp add: fits_def d)
  have l: "unat (el_size ?r) \<le> length [7, 9 :: uint8_t]" by (simp add: d)
  have h1: "(1 :: unsigned) < length_r ?r" by (simp add: d)
  have o3: "unat ((2147483648 :: unsigned) * el_size ?r) = 0" by (simp add: d)
  have o2: "unat ((2 :: unsigned) * el_size ?r) = 4" by (simp add: d)
  from set_r_copies_slot [OF l, of 1] f h1
  have a: "set_r ?r 1 [7, 9] = Stored (?r\<lparr> data := [0, 0, 7, 9] \<rparr>)" by (simp add: d)
  from set_r_copies_slot [OF l, of 2147483648]
  have b: "set_r ?r 2147483648 [7, 9] = Stored (?r\<lparr> data := [7, 9, 0, 0] \<rparr>)"
    unfolding o3 by (simp add: d)
  from set_r_copies_slot [OF l, of 2]
  have c: "set_r ?r 2 [7, 9] = Undefined ?r"
    unfolding o2 by (simp add: d)
  from l f h1 a b c show ?thesis by simp
qed

text \<open>
  C4 as stated fails: on a record of two 16-bit elements, \<open>set\<close> with the index
  \<open>2^31\<close>, which is not below the length 2, does not fail; the offset \<open>2^31 * 2\<close>
  wraps around to 0 and the two bytes overwrite slot 0.
\<close>

theorem set_r_unchecked_counterexample:
  "length_r (Result_ctor TYPE_UINT16 2 2 ''f'' 1 1 0 False) \<le> 2147483648
   \<and> set_r (Result_ctor TYPE_UINT16 2 2 ''f'' 1 1 0 False) 2147483648 [7, 9]
       = Stored ((Result_ctor TYPE_UINT16 2 2 ''f'' 1 1 0 False)\<lparr> data := [7, 9, 0, 0] \<rparr>)"
proof -
  let ?r = "Result_ctor TYPE_UINT16 2 2 ''f'' 1 1 0 False"
  have d0: "data ?r = [0, 0, 0, 0]" by code_simp
  have d: "data ?r = [0, 0, 0, 0]" "el_size ?r = 2" "length_r ?r = 2"
    by (simp_all add: d0) (simp_all add: Result_ctor_def)
  have o: "unat ((2147483648 :: unsigned) * el_size ?r) = 0" by (simp add: d)
  have "set_r ?r 2147483648 [7, 9] = Stored (?r\<lparr> data := [7, 9, 0, 0] \<rparr>)"
    by (simp add: set_r_def Let_def o) (simp add: d)
  then show ?thesis by (simp add: d)
qed

section \<open>The results set: push, policy and sections\<close>

text \<open>
  C8. The record that \<open>push\<close> creates has the given type and length, the element size of
  its type, and a buffer of \<open>el_size*length\<close> bytes that are all zero; the product is the
  \<open>unsigned\<close> product of the code, and it is the product of the two numbers whenever
  that fits into an \<open>unsigned\<close>. The record is the last one of the current section.
\<close>

theorem push_zero_buffer:
  "data (fst (push s t n f l)) = replicate (unat (el_size (fst (push s t n f l)) * n)) 0
   \<and> type (fst (push s t n f l)) = t
   \<and> length_r (fst (push s t n f l)) = n
   \<and> unat (el_size (fst (push s t n f l))) = size_for_type t
   \<and> last (results_m (snd (push s t n f l)) ! unat (curr_results_section_m s))
       = fst (push s t n f l)
   \<and> (unat n * size_for_type t < 2 ^ 32 \<longrightarrow>
        data (fst (push s t n f l)) = replicate (unat n * size_for_type t) 0)"
proof -
  let ?r = "fst (push s t n f l)"
  have r: "?r = Result_ctor t n (of_nat (size_for_type t)) f l (seq_m s)
                  (curr_precision_ulp_m s) (curr_fp_zero_equal_m s \<noteq> 0)"
    by (rule push_record)
  have d: "data ?r = replicate (unat (el_size ?r * n)) 0"
    by (simp add: r Result_ctor_def)
  have e: "unat (el_size ?r) = size_for_type t"
    by (simp add: r Result_ctor_def unat_size_for_type)
  have st: "last (results_m (snd (push s t n f l)) ! unat (curr_results_section_m s)) = ?r"
    by (simp add: push_def Let_def open_sections_def)
  have m: "data ?r = replicate (unat n * size_for_type t) 0"
    if "unat n * size_for_type t < 2 ^ 32"
  proof -
    have "unat (el_size ?r) * unat n < 2 ^ 32" using that e by (simp add: mult.commute)
    then have "unat (el_size ?r * n) = unat (el_size ?r) * unat n"
      using unat_mult_lem [of "el_size ?r" n] by simp
    then show ?thesis using d e by (simp add: mult.commute)
  qed
  show ?thesis using d e st m by (simp add: r Result_ctor_def)
qed

text \<open>Three single-precision elements pushed into a fresh set: twelve zero bytes.\<close>

theorem push_zero_buffer_witness:
  "unat (3 :: unsigned) * size_for_type TYPE_FLOAT32 < 2 ^ 32
   \<and> data (fst (push (TestResultsSet_ctor ''t'') TYPE_FLOAT32 3 ''f'' 1)) = replicate 12 0"
proof -
  have h: "unat (3 :: unsigned) * size_for_type TYPE_FLOAT32 < 2 ^ 32" by simp
  have e: "unat (3 :: unsigned) * size_for_type TYPE_FLOAT32 = 12" by simp
  from push_zero_buffer [of "TestResultsSet_ctor ''t''" TYPE_FLOAT32 3 "''f''" 1] h
  have "data (fst (push (TestResultsSet_ctor ''t'') TYPE_FLOAT32 3 ''f'' 1))
          = replicate (unat (3 :: unsigned) * size_for_type TYPE_FLOAT32) 0" by blast
  then show ?thesis using h unfolding e by simp
qed

text \<open>
  C9. Each of \<open>set_precision\<close>, \<open>unset_precision\<close>, \<open>set_fp_zero_equal\<close> and
  \<open>unset_fp_zero_equal\<close> leaves the stored records as they are and changes nothing but
  its own policy cursor: putting the old value of the cursor back gives the old state.
  \<open>set\<close>, the one operation of a record, leaves the policy fields of the record alone.
\<close>

theorem policy_setters_frame:
  "get_results (set_precision n s) = get_results s
   \<and> get_results (unset_precision s) = get_results s
   \<and> get_results (set_fp_zero_equal s) = get_results s
   \<and> get_results (unset_fp_zero_equal s) = get_results s
   \<and> (set_precision n s)\<lparr> curr_precision_ulp_m := curr_precision_ulp_m s \<rparr> = s
   \<and> (unset_precision s)\<lparr> curr_precision_ulp_m := curr_precision_ulp_m s \<rparr> = s
   \<and> (set_fp_zero_equal s)\<lparr> curr_fp_zero_equal_m := curr_fp_zero_equal_m s \<rparr> = s
   \<and> (unset_fp_zero_equal s)\<lparr> curr_fp_zero_equal_m := curr_fp_zero_equal_m s \<rparr> = s
   \<and> prec_ulp (outcome_result (set_r r i a)) = prec_ulp r
   \<and> fp_zero_eq (outcome_result (set_r r i a)) = fp_zero_eq r"
  by (simp add: get_results_def set_precision_def unset_precision_def set_fp_zero_equal_def
      unset_fp_zero_equal_def set_r_fields)

lemma push_state:
  "seq_m (snd (push s t n f l)) = seq_m s + 1"
  "curr_results_section_m (snd (push s t n f l)) = curr_results_section_m s"
  "curr_precision_ulp_m (snd (push s t n f l)) = curr_precision_ulp_m s"
  "curr_fp_zero_equal_m (snd (push s t n f l)) = curr_fp_zero_equal_m s"
  "name_m (snd (push s t n f l)) = name_m s"
  by (simp_all add: push_def Let_def)

text \<open>
  C6, as the code has it. In every state, \<open>sync_archs\<close> sets the sequence counter to 1,
  so that the next pushed record has sequence number 1, and increments the private cursor
  \<open>curr_results_section_\<close> by one: by the \<open>++\<close> of the code, which is plus one on the
  numbers unless the cursor has reached the largest \<open>unsigned\<close>. It changes nothing
  else: the number of sections, which is the length of the list that \<open>get_results\<close>
  returns, is the same as before the call.
\<close>

theorem sync_archs_resets_seq:
  "seq_m (sync_archs s) = 1
   \<and> seq (fst (push (sync_archs s) t n f l)) = 1
   \<and> curr_results_section_m (sync_archs s) = curr_results_section_m s + 1
   \<and> (unat (curr_results_section_m s) < 2 ^ 32 - 1 \<longrightarrow>
        unat (curr_results_section_m (sync_archs s)) = unat (curr_results_section_m s) + 1)
   \<and> get_results (sync_archs s) = get_results s
   \<and> (sync_archs s)\<lparr> seq_m := seq_m s, curr_results_section_m := curr_results_section_m s \<rparr> = s"
proof -
  have w: "unat (curr_results_section_m s + 1) = unat (curr_results_section_m s) + 1"
    if "unat (curr_results_section_m s) < 2 ^ 32 - 1"
    using that by (simp add: unat_word_ariths)
  show ?thesis
    using w by (simp add: sync_archs_def reset_seq_def get_results_def push_record Result_ctor_def)
qed

text \<open>
  A push into a fresh set has sequence number 1 and a second push would have 2; after
  \<open>sync_archs\<close> the second push has sequence number 1 again, and the section counter
  is 1.
\<close>

theorem sync_archs_resets_seq_witness:
  "unat (curr_results_section_m (snd (push (TestResultsSet_ctor ''t'') TYPE_INT8 1 ''f'' 1)))
     < 2 ^ 32 - 1
   \<and> seq (fst (push (TestResultsSet_ctor ''t'') TYPE_INT8 1 ''f'' 1)) = 1
   \<and> seq (fst (push (snd (push (TestResultsSet_ctor ''t'') TYPE_INT8 1 ''f'' 1))
                  TYPE_INT8 1 ''f'' 2)) = 2
   \<and> seq (fst (push (sync_archs (snd (push (TestResultsSet_ctor ''t'') TYPE_INT8 1 ''f'' 1)))
                  TYPE_INT8 1 ''f'' 2)) = 1
   \<and> unat (curr_results_section_m
              (sync_archs (snd (push (TestResultsSet_ctor ''t'') TYPE_INT8 1 ''f'' 1)))) = 1"
proof -
  let ?s = "snd (push (TestResultsSet_ctor ''t'') TYPE_INT8 1 ''f'' 1)"
  have i: "curr_results_section_m (TestResultsSet_ctor ''t'') = 0"
    "seq_m (TestResultsSet_ctor ''t'') = 1"
    by (simp_all add: TestResultsSet_ctor_def)
  have c: "curr_results_section_m ?s = 0" "seq_m ?s = 2"
    unfolding push_state i by simp_all
  have h: "unat (curr_results_section_m ?s) < 2 ^ 32 - 1" by (simp add: c)
  have p: "seq (fst (push (TestResultsSet_ctor ''t'') TYPE_INT8 1 ''f'' 1)) = 1"
    "seq (fst (push ?s TYPE_INT8 1 ''f'' 2)) = 2"
    unfolding push_record by (simp_all add: Result_ctor_def i c)
  from sync_archs_resets_seq [of ?s TYPE_INT8 1 "''f''" 2] h p
  show ?thesis by (simp add: c)
qed

text \<open>
  C6 as stated fails for the number of sections: after one push into a fresh set,
  \<open>sync_archs\<close> leaves that number as it is.
\<close>

theorem sync_archs_section_count_counterexample:
  "length (get_results (sync_archs (snd (push (TestResultsSet_ctor ''t'') TYPE_INT8 1 ''f'' 1))))
     \<noteq> length (get_results (snd (push (TestResultsSet_ctor ''t'') TYPE_INT8 1 ''f'' 1))) + 1"
  by (simp add: get_results_def sync_archs_def reset_seq_def)

text \<open>
  C7, as the code has it. Two calls of \<open>sync_archs\<close> leave the sections that
  \<open>get_results\<close> returns and the number of results as they were, and move the section
  counter forward by two. For a fresh set: \<open>num_results()\<close> is 0, the section counter
  is 2 (the third section is the current one), and \<open>get_results()\<close> is what it was at
  creation.
\<close>

theorem sync_archs_twice:
  "get_results (sync_archs (sync_archs s)) = get_results s
   \<and> num_results (sync_archs (sync_archs s)) = num_results s
   \<and> curr_results_section_m (sync_archs (sync_archs s)) = curr_results_section_m s + 2
   \<and> num_results (sync_archs (sync_archs (TestResultsSet_ctor nm))) = 0
   \<and> curr_results_section_m (sync_archs (sync_archs (TestResultsSet_ctor nm))) = 2
   \<and> get_results (sync_archs (sync_archs (TestResultsSet_ctor nm)))
       = get_results (TestResultsSet_ctor nm)"
  by (simp add: get_results_def sync_archs_def reset_seq_def num_results_def
      TestResultsSet_ctor_def)

text \<open>
  C7 as stated fails: after two calls of \<open>sync_archs\<close> on a fresh set the number of
  sections that \<open>get_results\<close> returns is not 3.
\<close>

theorem sync_archs_twice_counterexample:
  "length (get_results (sync_archs (sync_archs (TestResultsSet_ctor ''t'')))) \<noteq> 3"
  by (simp add: get_results_def sync_archs_def reset_seq_def TestResultsSet_ctor_def)

section \<open>The comparison\<close>

text \<open>
  C2. When the two sets have different numbers of sections, \<open>test_equal\<close> returns
  failure and appends exactly one line to the sink, the structural one with the two
  section counts. The result is a function of the two counts and the labels alone: no
  record takes part in it.
\<close>

theorem test_equal_section_count:
  assumes "length (get_results a) \<noteq> length (get_results b)"
  shows "test_equal ulps a a_arch b b_arch err =
           (False, err @ [SectionCountMismatch a_arch b_arch
                            (length (get_results a)) (length (get_results b))])"
  using assms by (simp add: test_equal_def get_results_def Let_def)

lemma two_sections:
  "get_results (snd (push (sync_archs (TestResultsSet_ctor ''t'')) TYPE_INT8 1 ''f'' 1))
     = [[], [Result_ctor TYPE_INT8 1 1 ''f'' 1 1 0 False]]"
  by (simp add: get_results_def push_def sync_archs_def reset_seq_def TestResultsSet_ctor_def
      open_sections_def Let_def)

text \<open>A fresh set against a set with a record in its second section.\<close>

theorem test_equal_section_count_witness:
  "length (get_results (TestResultsSet_ctor ''t''))
     \<noteq> length (get_results (snd (push (sync_archs (TestResultsSet_ctor ''t''))
                                   TYPE_INT8 1 ''f'' 1)))
   \<and> test_equal ulps_by_position (TestResultsSet_ctor ''t'') ''A''
        (snd (push (sync_archs (TestResultsSet_ctor ''t'')) TYPE_INT8 1 ''f'' 1)) ''B'' []
      = (False, [SectionCountMismatch ''A'' ''B'' 1 2])"
proof -
  let ?a = "TestResultsSet_ctor ''t''"
  let ?b = "snd (push (sync_archs (TestResultsSet_ctor ''t'')) TYPE_INT8 1 ''f'' 1)"
  have la: "length (get_results ?a) = 1" by (simp add: get_results_def TestResultsSet_ctor_def)
  have lb: "length (get_results ?b) = 2" by (simp add: two_sections)
  have h: "length (get_results ?a) \<noteq> length (get_results ?b)" by (simp add: la lb)
  from test_equal_section_count [OF h, of ulps_by_position "''A''" "''B''" "[]"] h
  show ?thesis by (simp add: la lb)
qed

lemma elements_equal_self: "elements_equal ulps r r i"
  by (simp add: elements_equal_def)

lemma compare_records_self: "compare_records ulps a_arch b_arch sect r r = []"
  by (simp add: compare_records_def compare_elements_def filter_empty_conv elements_equal_self)

lemma compare_section_self: "compare_section ulps a_arch b_arch sect sa sa = []"
proof -
  have "compare_records ulps a_arch b_arch sect x y = []" if "(x, y) \<in> set (zip sa sa)" for x y
  proof -
    from that have "x = y" by (auto simp: zip_same)
    then show ?thesis by (simp add: compare_records_self)
  qed
  then show ?thesis by (auto simp: compare_section_def)
qed

lemma compare_sections_self:
  "concat (map (\<lambda>(sect, sa, sb). compare_section ulps a_arch b_arch sect sa sb)
             (zip ns (zip ra ra))) = []"
proof -
  have "compare_section ulps a_arch b_arch n x y = []"
    if "(n, x, y) \<in> set (zip ns (zip ra ra))" for n x y
  proof -
    from that have "(x, y) \<in> set (zip ra ra)" by (rule set_zip_rightD)
    then have "x = y" by (auto simp: zip_same)
    then show ?thesis by (simp add: compare_section_self)
  qed
  then show ?thesis by auto
qed

text \<open>
  C3. A results set compared with a set that holds the same sections and records
  succeeds and appends nothing to the sink, whatever bytes the records hold and whatever
  measure of the distance in ULPs is used.
\<close>

theorem test_equal_identical:
  assumes "get_results b = get_results a"
  shows "test_equal ulps a a_arch b b_arch err = (True, err)"
proof -
  from assms have eq: "results_m b = results_m a" by (simp add: get_results_def)
  show ?thesis
    using compare_sections_self [of ulps a_arch b_arch "[0..<length (results_m a)]" "results_m a"]
    by (simp add: test_equal_def Let_def eq)
qed

text \<open>The set whose only element is a NaN, compared with itself.\<close>

theorem test_equal_identical_witness:
  "get_results nan_example = get_results nan_example
   \<and> test_equal ulps_by_position nan_example ''A'' nan_example ''B'' [] = (True, [])"
  using test_equal_identical [of nan_example nan_example ulps_by_position "''A''" "''B''" "[]"]
  by simp












end
